theory Spec2Isabelle
  imports Main "HOL-Library.Sublist"
begin

section \<open>Messages (aiClient.ts, interface AIMessage)\<close>

text \<open>
  A JavaScript \<^verbatim>\<open>Error\<close> is represented by its message. The nested payload of a
  structured content part (image source, image url, inline data) is kept as a small
  JSON value.
\<close>

datatype error = Error (message_of: string)

datatype json = JStr string | JObj "(string \<times> json) list"

text \<open>
  An element of an array-valued \<^verbatim>\<open>content\<close> is either a raw string or an object. Of an
  object the code reads the fields \<^verbatim>\<open>type\<close> and \<^verbatim>\<open>text\<close>, both optional strings; every
  other field is carried along in \<open>pfields\<close>.
\<close>

datatype part =
    PString string
  | PObject (ptype: "string option") (ptext: "string option") (pfields: "(string \<times> json) list")

datatype content = Text string | Parts "part list"

datatype role = User | Assistant | System

record AIMessage =
  role :: role
  content :: content
  name :: "string option"
  msg_type :: "string option"

section \<open>Message normalisation\<close>

text \<open>\<^verbatim>\<open>String.prototype.startsWith\<close> is \<^const>\<open>prefix\<close> on lists of characters.\<close>

definition startsWith :: "string \<Rightarrow> string \<Rightarrow> bool" where
  "startsWith s p = prefix p s"

text \<open>
  The predicate handed to \<^verbatim>\<open>Array.prototype.some\<close> in \<^verbatim>\<open>filterDiagnosticMessages\<close>:
  \<^verbatim>\<open>typeof item === 'string' && item.startsWith('Mode.') ||
  (item.type === 'text' && item.text?.startsWith('Mode.'))\<close>.
  For a raw string \<^verbatim>\<open>item.type\<close> is undefined, so the second disjunct is false.
\<close>

fun some_item :: "part \<Rightarrow> bool" where
  "some_item (PString s) = startsWith s ''Mode.''"
| "some_item (PObject ty tx fs) =
     (ty = Some ''text'' \<and> (case tx of None \<Rightarrow> False | Some t \<Rightarrow> startsWith t ''Mode.''))"

text \<open>
  The predicate handed to \<^verbatim>\<open>Array.prototype.filter\<close>. Its last line, \<^verbatim>\<open>return true\<close>,
  is for a content that is neither a string nor an array, which the type of
  \<^verbatim>\<open>AIMessage\<close> excludes.
\<close>

definition keep_message :: "AIMessage \<Rightarrow> bool" where
  "keep_message msg =
     (case content msg of
        Text s \<Rightarrow> \<not> startsWith s ''Mode.''
      | Parts items \<Rightarrow> \<not> list_ex some_item items)"

definition filterDiagnosticMessages :: "AIMessage list \<Rightarrow> AIMessage list" where
  "filterDiagnosticMessages messages = filter keep_message messages"

text \<open>
  The value of \<^verbatim>\<open>formatImageContent\<close> is an array of parts for the vision-capable
  providers and a plain string otherwise.
\<close>

datatype formatted = FParts "part list" | FText string

text \<open>\<^verbatim>\<open>imageData.replace(/^data:image\/(png|jpeg);base64,/, '')\<close>\<close>

definition strip_data_url :: "string \<Rightarrow> string" where
  "strip_data_url imageData =
     (if startsWith imageData ''data:image/png;base64,''
        then drop (length ''data:image/png;base64,'') imageData
      else if startsWith imageData ''data:image/jpeg;base64,''
        then drop (length ''data:image/jpeg;base64,'') imageData
      else imageData)"

definition media_type :: "string \<Rightarrow> string" where
  "media_type imageData =
     (if startsWith imageData ''data:image/png'' then ''image/png'' else ''image/jpeg'')"

definition formatImageContent :: "string \<Rightarrow> string \<Rightarrow> formatted" where
  "formatImageContent prov imageData =
     (if prov = ''anthropic'' then
        FParts [PObject (Some ''image'') None
                  [(''source'', JObj [(''type'', JStr ''base64''),
                                      (''media_type'', JStr (media_type imageData)),
                                      (''data'', JStr (strip_data_url imageData))])],
                PObject (Some ''text'') (Some ''Describe this image.'') []]
      else if prov = ''openai'' then
        FParts [PObject (Some ''image_url'') None
                  [(''image_url'', JObj [(''url'', JStr imageData)])]]
      else if prov = ''google'' then
        FParts [PObject None (Some ''Here's an image: '') [],
                PObject None None
                  [(''inlineData'', JObj [(''data'', JStr imageData),
                                          (''mimeType'', JStr (media_type imageData))])]]
      else if prov = ''mistral'' \<or> prov = ''cohere'' then
        FText (''[Image input not supported for '' @ prov @ '']'')
      else FText ''[Image]'')"

section \<open>The client (aiClient.ts, class AIClient)\<close>

text \<open>
  The vendor SDKs are external. A handle records the key it was built with; an SDK
  constructor may throw. \<^verbatim>\<open>apiKey\<close> is optional because the factory passes
  \<^verbatim>\<open>undefined\<close> for a provider that needs no key.
\<close>

datatype handle = Handle "string option"

record sdk =
  new_Anthropic :: "string option \<Rightarrow> error + handle"
  new_OpenAI :: "string option \<Rightarrow> error + handle"
  new_GoogleGenerativeAI :: "string option \<Rightarrow> error + handle"
  new_GoogleAIFileManager :: "string option \<Rightarrow> error + handle"
  new_Cohere :: "string option \<Rightarrow> error + handle"
  new_Mistral :: "string option \<Rightarrow> error + handle"

record AIClientConfig =
  cfg_provider :: string
  cfg_apiKey :: "string option"
  cfg_model :: "string option"
  cfg_endpoint :: "string option"

record AIClient =
  anthropicClient :: "handle option"
  openaiClient :: "handle option"
  googleClient :: "handle option"
  cohereClient :: "handle option"
  mistralClient :: "handle option"
  provider :: string
  model :: "string option"
  isCancelled :: bool
  googleFileManager :: "handle option"

text \<open>\<^verbatim>\<open>config.model || dflt\<close>: an absent or empty model name is falsy.\<close>

definition model_or :: "string option \<Rightarrow> string \<Rightarrow> string" where
  "model_or m dflt = (case m of None \<Rightarrow> dflt | Some s \<Rightarrow> if s = [] then dflt else s)"

text \<open>The object before the constructor's \<^verbatim>\<open>switch\<close>: only \<^verbatim>\<open>provider\<close> is assigned.\<close>

definition fresh_client :: "string \<Rightarrow> AIClient" where
  "fresh_client p =
     \<lparr>anthropicClient = None, openaiClient = None, googleClient = None, cohereClient = None,
      mistralClient = None, provider = p, model = None, isCancelled = False,
      googleFileManager = None\<rparr>"

definition new_AIClient :: "sdk \<Rightarrow> AIClientConfig \<Rightarrow> error + AIClient" where
  "new_AIClient k config =
     (let this = fresh_client (cfg_provider config) in
      if cfg_provider config = ''anthropic'' then
        (case new_Anthropic k (cfg_apiKey config) of
           Inl e \<Rightarrow> Inl e
         | Inr h \<Rightarrow> Inr (this\<lparr>anthropicClient := Some h,
                          model := Some (model_or (cfg_model config) ''claude-3-sonnet-20240229'')\<rparr>))
      else if cfg_provider config = ''openai'' then
        (case new_OpenAI k (cfg_apiKey config) of
           Inl e \<Rightarrow> Inl e
         | Inr h \<Rightarrow> Inr (this\<lparr>openaiClient := Some h,
                          model := Some (model_or (cfg_model config) ''gpt-4-turbo-preview'')\<rparr>))
      else if cfg_provider config = ''google'' then
        (case new_GoogleGenerativeAI k (cfg_apiKey config) of
           Inl e \<Rightarrow> Inl e
         | Inr h \<Rightarrow>
             (case new_GoogleAIFileManager k (cfg_apiKey config) of
                Inl e \<Rightarrow> Inl e
              | Inr fm \<Rightarrow> Inr (this\<lparr>googleClient := Some h, googleFileManager := Some fm,
                                model := Some (model_or (cfg_model config) ''gemini-pro'')\<rparr>)))
      else if cfg_provider config = ''cohere'' then
        (case new_Cohere k (cfg_apiKey config) of
           Inl e \<Rightarrow> Inl e
         | Inr h \<Rightarrow> Inr (this\<lparr>cohereClient := Some h,
                          model := Some (model_or (cfg_model config) ''command'')\<rparr>))
      else if cfg_provider config = ''mistral'' then
        (case new_Mistral k (cfg_apiKey config) of
           Inl e \<Rightarrow> Inl e
         | Inr h \<Rightarrow> Inr (this\<lparr>mistralClient := Some h,
                          model := Some (model_or (cfg_model config) ''mistral-medium'')\<rparr>))
      else Inr this)"

definition stopGeneration :: "AIClient \<Rightarrow> AIClient" where
  "stopGeneration c = c\<lparr>isCancelled := True\<rparr>"

definition getProvider :: "AIClient \<Rightarrow> string" where
  "getProvider c = provider c"

section \<open>The client factory (aiClientFactory.ts)\<close>

text \<open>
  \<^verbatim>\<open>instances\<close> is a JavaScript \<^verbatim>\<open>Map\<close>: an insertion-ordered association list with
  distinct keys. It holds references; the clients themselves live in \<open>objects\<close>, and a
  reference is an index into that list, so that two results name the same instance
  exactly when their references are equal and every construction extends \<open>objects\<close>.
  \<open>initialized\<close> says whether \<^verbatim>\<open>initialize\<close> has set \<^verbatim>\<open>apiKeyManager\<close>.
\<close>

fun map_set :: "'k \<Rightarrow> 'v \<Rightarrow> ('k \<times> 'v) list \<Rightarrow> ('k \<times> 'v) list" where
  "map_set k v [] = [(k, v)]"
| "map_set k v (p # ps) = (if fst p = k then (k, v) # ps else p # map_set k v ps)"


record factory =
  instances :: "(string \<times> nat) list"
  objects :: "AIClient list"
  initialized :: bool

definition empty_factory :: factory where
  "empty_factory = \<lparr>instances = [], objects = [], initialized = False\<rparr>"

definition initialize :: "factory \<Rightarrow> factory" where
  "initialize f = f\<lparr>initialized := True\<rparr>"

text \<open>
  The external collaborators of the factory: the credential store behind
  \<^verbatim>\<open>ApiKeyManager.getApiKey\<close>, the model table behind \<^verbatim>\<open>AIModel.getModelInfo\<close> (of the
  entry only \<^verbatim>\<open>endpoint\<close> is read) and the SDK constructors. The two lookups are
  taken not to throw.
\<close>

record environment =
  getApiKey :: "string \<Rightarrow> string option"
  getModelInfo :: "string \<Rightarrow> string option option"
  sdks :: sdk

record create_result =
  success :: bool
  message :: "string option"
  client :: "nat option"

text \<open>\<^verbatim>\<open>`${provider}-${model || 'default'}`\<close>\<close>

definition instanceKey :: "string \<Rightarrow> string \<Rightarrow> string" where
  "instanceKey p m = p @ ''-'' @ (if m = [] then ''default'' else m)"

text \<open>\<^verbatim>\<open>!apiKey\<close>: an absent and an empty key are both falsy.\<close>

definition no_key :: "string option \<Rightarrow> bool" where
  "no_key k = (case k of None \<Rightarrow> True | Some s \<Rightarrow> s = [])"

text \<open>
  \<^verbatim>\<open>createClient\<close>. \<^verbatim>\<open>modelInfo!.endpoint\<close> stands outside the \<^verbatim>\<open>try\<close>: for a model the
  table does not know it throws a TypeError, which is the \<open>Inl\<close> result.
\<close>

definition createClient ::
  "environment \<Rightarrow> string \<Rightarrow> string \<Rightarrow> factory \<Rightarrow> error + (create_result \<times> factory)" where
  "createClient env p m f =
     (case map_of (instances f) (instanceKey p m) of
        Some existingClient \<Rightarrow>
          Inr (\<lparr>success = True, message = None, client = Some existingClient\<rparr>, f)
      | None \<Rightarrow>
          (let apiKey = (if p \<noteq> ''ollama''
                         then (if initialized f then getApiKey env p else None)
                         else None)
           in if p \<noteq> ''ollama'' \<and> no_key apiKey then
                Inr (\<lparr>success = False, message = Some (''APIKey.'' @ p @ ''.Missing''),
                      client = None\<rparr>, f)
              else
                (case getModelInfo env m of
                   None \<Rightarrow> Inl (Error ''Cannot read properties of undefined (reading 'endpoint')'')
                 | Some endpoint \<Rightarrow>
                     (case new_AIClient (sdks env)
                             \<lparr>cfg_provider = p, cfg_apiKey = apiKey, cfg_model = Some m,
                              cfg_endpoint = endpoint\<rparr> of
                        Inl e \<Rightarrow>
                          Inr (\<lparr>success = False,
                                message = Some (''Failed to initialize '' @ p @ '' client: ''
                                                @ message_of e),
                                client = None\<rparr>, f)
                      | Inr c \<Rightarrow>
                          Inr (\<lparr>success = True, message = None,
                                client = Some (length (objects f))\<rparr>,
                               f\<lparr>objects := objects f @ [c],
                                 instances := map_set (instanceKey p m) (length (objects f))
                                                (instances f)\<rparr>)))))"

definition getInstance :: "string \<Rightarrow> string \<Rightarrow> factory \<Rightarrow> nat option" where
  "getInstance p m f = map_of (instances f) (instanceKey p m)"


section \<open>Streaming chat (aiClient.ts, the five provider methods)\<close>

subsection \<open>What the transports deliver\<close>

text \<open>
  The chunk types belong to the vendor SDKs; each is modelled by the fields its loop
  body reads.
  \<^item> Anthropic: \<^verbatim>\<open>chunk.type\<close> and the optional \<^verbatim>\<open>chunk.delta\<close> with \<^verbatim>\<open>type\<close> and \<^verbatim>\<open>text\<close>.
  \<^item> OpenAI: \<^verbatim>\<open>chunk.choices\<close>, of each choice the optional \<^verbatim>\<open>delta\<close> and its optional
    \<^verbatim>\<open>content\<close>.
  \<^item> Google: the method \<^verbatim>\<open>chunk.text()\<close>, which may throw.
  \<^item> Cohere: \<^verbatim>\<open>chunk.type\<close> and the value of the optional chain
    \<^verbatim>\<open>chunk.delta?.message?.content?.text\<close>.
  \<^item> Mistral: \<^verbatim>\<open>chunk.data.choices\<close>, of each choice \<^verbatim>\<open>delta.content\<close>, which is a
    string, an array of content chunks, or absent.
\<close>

datatype anthropic_delta = AnthropicDelta (delta_type: string) (delta_text: string)

datatype anthropic_chunk = AnthropicChunk (a_type: string) (a_delta: "anthropic_delta option")

datatype openai_chunk = OpenAIChunk (o_choices: "string option option list")

datatype google_chunk = GoogleChunk (g_text: "error + string")

datatype cohere_chunk = CohereChunk (c_type: string) (c_text: "string option")

datatype mistral_content = MText string | MArray | MAbsent

datatype mistral_chunk = MistralChunk (m_choices: "mistral_content list")

text \<open>
  The text a loop body takes from a chunk; the empty string stands for every chunk the
  body skips (\<^verbatim>\<open>if (text)\<close> fails or the chunk is of another kind). Only
  \<^verbatim>\<open>chunk.data.choices[0].delta\<close> on an empty \<^verbatim>\<open>choices\<close> and \<^verbatim>\<open>chunk.text()\<close> can throw.
\<close>

definition anthropic_text :: "anthropic_chunk \<Rightarrow> error + string" where
  "anthropic_text chunk =
     (if a_type chunk = ''content_block_delta'' then
        Inr (case a_delta chunk of
               None \<Rightarrow> []
             | Some d \<Rightarrow> if delta_type d = ''text_delta'' then delta_text d else [])
      else Inr [])"

definition openai_text :: "openai_chunk \<Rightarrow> error + string" where
  "openai_text chunk =
     Inr (case o_choices chunk of
            [] \<Rightarrow> []
          | choice # _ \<Rightarrow> (case choice of Some (Some s) \<Rightarrow> s | _ \<Rightarrow> []))"

definition google_text :: "google_chunk \<Rightarrow> error + string" where
  "google_text chunk = g_text chunk"

definition cohere_text :: "cohere_chunk \<Rightarrow> error + string" where
  "cohere_text chunk =
     (if c_type chunk = ''content-delta'' then
        Inr (case c_text chunk of None \<Rightarrow> [] | Some s \<Rightarrow> s)
      else Inr [])"

definition mistral_text :: "mistral_chunk \<Rightarrow> error + string" where
  "mistral_text chunk =
     (case m_choices chunk of
        [] \<Rightarrow> Inl (Error ''Cannot read properties of undefined (reading 'delta')'')
      | c # _ \<Rightarrow> Inr (case c of MText s \<Rightarrow> s | _ \<Rightarrow> []))"

text \<open>
  One call as the adapter sees it. While the adapter awaits the transport, three
  things can happen: a chunk arrives, the stream raises, or the owner of the client
  calls \<^verbatim>\<open>stopGeneration\<close>. The end of the list is the end of the stream.
  \<open>stop_while_opening\<close> says whether \<^verbatim>\<open>stopGeneration\<close> was called while the request
  was being opened, and \<open>opened\<close> is the error the opening call raised or the events
  of the opened stream.
\<close>

datatype 'c event = Chunk 'c | StreamError error | Stop

datatype 'c response = Response (stop_while_opening: bool) (opened: "error + 'c event list")

subsection \<open>The requests\<close>

record anthropic_request =
  ar_model :: "string option"
  ar_system :: "content option"
  ar_messages :: "(role \<times> formatted) list"

record openai_request =
  or_model :: string
  or_messages :: "(role \<times> formatted) list"
  or_limit :: string

record google_request =
  gr_model :: "string option"
  gr_history :: "(string \<times> formatted) list"
  gr_parts :: formatted

record cohere_request =
  cr_model :: "string option"
  cr_messages :: "(role \<times> content) list"

record mistral_request =
  mr_model :: "string option"
  mr_messages :: "(role \<times> string) list"

text \<open>
  What lies outside the client during one call: the five streaming transports, and
  \<^verbatim>\<open>JSON.stringify\<close> on an array of parts.
\<close>

record runtime =
  anthropic_create :: "anthropic_request \<Rightarrow> anthropic_chunk response"
  openai_create :: "openai_request \<Rightarrow> openai_chunk response"
  google_sendMessageStream :: "google_request \<Rightarrow> google_chunk response"
  cohere_chatStream :: "cohere_request \<Rightarrow> cohere_chunk response"
  mistral_stream :: "mistral_request \<Rightarrow> mistral_chunk response"
  json_stringify :: "part list \<Rightarrow> string"

definition anthropic_content :: "content \<Rightarrow> formatted" where
  "anthropic_content c =
     (case c of
        Text s \<Rightarrow> if startsWith s ''data:image'' then formatImageContent ''anthropic'' s
                  else FParts [PObject (Some ''text'') (Some s) []]
      | Parts ps \<Rightarrow> FParts ps)"

definition anthropic_build :: "AIClient \<Rightarrow> AIMessage list \<Rightarrow> anthropic_request" where
  "anthropic_build c messages =
     \<lparr>ar_model = model c,
      ar_system = map_option content (find (\<lambda>msg. role msg = System) messages),
      ar_messages = map (\<lambda>msg. (role msg, anthropic_content (content msg)))
                      (filter (\<lambda>msg. role msg \<noteq> System) messages)\<rparr>"

definition openai_content :: "content \<Rightarrow> formatted" where
  "openai_content c =
     (case c of
        Text s \<Rightarrow> if startsWith s ''data:image'' then formatImageContent ''openai'' s else FText s
      | Parts ps \<Rightarrow> FParts ps)"

definition openai_build :: "string \<Rightarrow> AIMessage list \<Rightarrow> openai_request" where
  "openai_build mdl messages =
     \<lparr>or_model = mdl,
      or_messages = map (\<lambda>msg. (if startsWith mdl ''o1'' \<and> role msg = System then User else role msg,
                                openai_content (content msg))) messages,
      or_limit = (if startsWith mdl ''o1'' then ''max_completion_tokens'' else ''max_tokens'')\<rparr>"

definition google_content :: "content \<Rightarrow> formatted" where
  "google_content c =
     (case c of
        Text s \<Rightarrow> if startsWith s ''data:image'' then formatImageContent ''google'' s
                  else FParts [PObject None (Some s) []]
      | Parts ps \<Rightarrow> FParts ps)"

definition google_processed :: "AIMessage list \<Rightarrow> (string \<times> formatted) list" where
  "google_processed messages =
     map (\<lambda>msg. (if role msg = Assistant then ''model'' else ''user'', google_content (content msg)))
       (filter (\<lambda>msg. msg_type msg \<noteq> Some ''image'') messages)"

definition google_build :: "AIClient \<Rightarrow> (string \<times> formatted) list \<Rightarrow> google_request" where
  "google_build c processedMessages =
     \<lparr>gr_model = model c, gr_history = butlast processedMessages,
      gr_parts = snd (last processedMessages)\<rparr>"

definition cohere_build :: "AIClient \<Rightarrow> AIMessage list \<Rightarrow> cohere_request" where
  "cohere_build c messages =
     \<lparr>cr_model = model c,
      cr_messages = map (\<lambda>msg. (role msg, content msg))
                      (filter (\<lambda>msg. msg_type msg \<noteq> Some ''image'') messages)\<rparr>"

definition mistral_build :: "(part list \<Rightarrow> string) \<Rightarrow> AIClient \<Rightarrow> AIMessage list \<Rightarrow> mistral_request" where
  "mistral_build stringify c messages =
     \<lparr>mr_model = model c,
      mr_messages = map (\<lambda>msg. (role msg,
                                case content msg of Text s \<Rightarrow> s | Parts ps \<Rightarrow> stringify ps))
                      (filter (\<lambda>msg. msg_type msg \<noteq> Some ''image'') messages)\<rparr>"

subsection \<open>The streaming loop\<close>

text \<open>
  What a call leaves behind: the value returned or the error thrown, the arguments of
  the \<^verbatim>\<open>onToken\<close> and of the \<^verbatim>\<open>onComplete\<close> calls in order, the client with its
  cancellation flag as the call left it, and the lines appended to the output channel.
  The callbacks themselves are taken not to throw.
\<close>

record outcome =
  result :: "error + string"
  tokens :: "string list"
  completions :: "string list"
  client_after :: AIClient
  logged :: "string list"

text \<open>
  The five methods run the same \<^verbatim>\<open>try { for await ... } catch\<close> block and differ in the
  text they take from a chunk, which is the parameter \<open>text_of\<close>. The arguments are the
  events still to come, \<^verbatim>\<open>this.isCancelled\<close>, \<^verbatim>\<open>fullText\<close> and the tokens delivered so
  far; the value is the result, the tokens, the \<^verbatim>\<open>onComplete\<close> calls and the flag.
  \<^item> End of stream: the loop is left, \<^verbatim>\<open>onComplete(fullText)\<close> is called and \<^verbatim>\<open>fullText\<close>
    returned. The flag is not read here.
  \<^item> \<^verbatim>\<open>stopGeneration\<close> sets the flag.
  \<^item> The stream raises: the \<^verbatim>\<open>catch\<close> block returns \<^verbatim>\<open>fullText\<close> if the flag is set and
    rethrows otherwise.
  \<^item> A chunk: the body returns \<^verbatim>\<open>fullText\<close> if the flag is set; otherwise it takes the
    text, and a non-empty text is appended and handed to \<^verbatim>\<open>onToken\<close>. An error thrown
    by the body reaches the same \<^verbatim>\<open>catch\<close>, where the flag is still unset.
\<close>

fun consume ::
  "('c \<Rightarrow> error + string) \<Rightarrow> 'c event list \<Rightarrow> bool \<Rightarrow> string \<Rightarrow> string list
     \<Rightarrow> (error + string) \<times> string list \<times> string list \<times> bool" where
  "consume text_of [] cancelled fullText toks = (Inr fullText, toks, [fullText], cancelled)"
| "consume text_of (Stop # es) cancelled fullText toks = consume text_of es True fullText toks"
| "consume text_of (StreamError e # es) cancelled fullText toks =
     (if cancelled then (Inr fullText, toks, [], cancelled) else (Inl e, toks, [], cancelled))"
| "consume text_of (Chunk chunk # es) cancelled fullText toks =
     (if cancelled then (Inr fullText, toks, [], cancelled)
      else (case text_of chunk of
              Inl e \<Rightarrow> (Inl e, toks, [], cancelled)
            | Inr text \<Rightarrow>
                if text \<noteq> [] then consume text_of es cancelled (fullText @ text) (toks @ [text])
                else consume text_of es cancelled fullText toks))"

text \<open>
  \<^verbatim>\<open>anthropicChat\<close> and \<^verbatim>\<open>openaiChat\<close> open the stream before the \<^verbatim>\<open>try\<close>, so an error
  of the opening call is thrown whatever the flag says; the other three open it
  inside the \<^verbatim>\<open>try\<close>.
\<close>

definition open_before_try ::
  "('c \<Rightarrow> error + string) \<Rightarrow> 'c response
     \<Rightarrow> (error + string) \<times> string list \<times> string list \<times> bool" where
  "open_before_try text_of r =
     (case opened r of
        Inl e \<Rightarrow> (Inl e, [], [], stop_while_opening r)
      | Inr es \<Rightarrow> consume text_of es (stop_while_opening r) [] [])"

definition open_inside_try ::
  "('c \<Rightarrow> error + string) \<Rightarrow> 'c response
     \<Rightarrow> (error + string) \<times> string list \<times> string list \<times> bool" where
  "open_inside_try text_of r =
     (case opened r of
        Inl e \<Rightarrow> (if stop_while_opening r then (Inr [], [], [], True) else (Inl e, [], [], False))
      | Inr es \<Rightarrow> consume text_of es (stop_while_opening r) [] [])"

definition settle :: "AIClient \<Rightarrow> (error + string) \<times> string list \<times> string list \<times> bool \<Rightarrow> outcome" where
  "settle c r =
     (case r of (res, toks, calls, cancelled) \<Rightarrow>
        \<lparr>result = res, tokens = toks, completions = calls,
         client_after = c\<lparr>isCancelled := cancelled\<rparr>, logged = []\<rparr>)"

definition throws :: "AIClient \<Rightarrow> error \<Rightarrow> outcome" where
  "throws c e = \<lparr>result = Inl e, tokens = [], completions = [], client_after = c, logged = []\<rparr>"

subsection \<open>The provider methods and \<^verbatim>\<open>chat\<close>\<close>

definition anthropicChat :: "runtime \<Rightarrow> AIClient \<Rightarrow> AIMessage list \<Rightarrow> outcome" where
  "anthropicChat rt c messages =
     (let this = c\<lparr>isCancelled := False\<rparr> in
      case anthropicClient c of
        None \<Rightarrow> throws this (Error ''Anthropic client not initialized'')
      | Some h \<Rightarrow>
          settle this (open_before_try anthropic_text
                         (anthropic_create rt (anthropic_build c messages))))"

text \<open>
  In \<^verbatim>\<open>openaiChat\<close> the request is built with \<^verbatim>\<open>this.model.startsWith('o1')\<close>, a TypeError
  on a client without a model.
\<close>

definition openaiChat :: "runtime \<Rightarrow> AIClient \<Rightarrow> AIMessage list \<Rightarrow> outcome" where
  "openaiChat rt c messages =
     (let this = c\<lparr>isCancelled := False\<rparr> in
      case openaiClient c of
        None \<Rightarrow> throws this (Error ''OpenAI client not initialized'')
      | Some h \<Rightarrow>
          (case model c of
             None \<Rightarrow> throws this
                      (Error ''Cannot read properties of undefined (reading 'startsWith')'')
           | Some mdl \<Rightarrow>
               settle this (open_before_try openai_text
                              (openai_create rt (openai_build mdl messages)))))"

text \<open>
  In \<^verbatim>\<open>googleChat\<close> the parts of the last processed message are sent and the others
  are the history (\<open>google_build\<close>); with nothing to send, \<^verbatim>\<open>lastMessage.parts\<close> is a TypeError inside the \<^verbatim>\<open>try\<close>, rethrown
  because the flag has just been reset.
\<close>

definition googleChat :: "runtime \<Rightarrow> AIClient \<Rightarrow> AIMessage list \<Rightarrow> outcome" where
  "googleChat rt c messages =
     (let this = c\<lparr>isCancelled := False\<rparr> in
      if googleClient c = None \<or> googleFileManager c = None then
        throws this (Error ''Google client not initialized'')
      else
        (let processedMessages = google_processed messages in
         if processedMessages = [] then
           throws this (Error ''Cannot read properties of undefined (reading 'parts')'')
         else
           settle this (open_inside_try google_text
                          (google_sendMessageStream rt (google_build c processedMessages)))))"

definition cohereChat :: "runtime \<Rightarrow> AIClient \<Rightarrow> AIMessage list \<Rightarrow> outcome" where
  "cohereChat rt c messages =
     (let this = c\<lparr>isCancelled := False\<rparr> in
      case cohereClient c of
        None \<Rightarrow> throws this (Error ''Cohere client not initialized'')
      | Some h \<Rightarrow>
          settle this (open_inside_try cohere_text
                         (cohere_chatStream rt (cohere_build c messages))))"

definition mistralChat :: "runtime \<Rightarrow> AIClient \<Rightarrow> AIMessage list \<Rightarrow> outcome" where
  "mistralChat rt c messages =
     (let this = c\<lparr>isCancelled := False\<rparr> in
      case mistralClient c of
        None \<Rightarrow> throws this (Error ''Mistral client not initialized'')
      | Some h \<Rightarrow>
          settle this (open_inside_try mistral_text
                         (mistral_stream rt (mistral_build (json_stringify rt) c messages))))"

text \<open>
  \<^verbatim>\<open>chat\<close>. The provider methods are asynchronous and their promise is returned without
  \<^verbatim>\<open>await\<close>, so the \<^verbatim>\<open>catch\<close> block of \<^verbatim>\<open>chat\<close> sees only the error thrown by the
  \<^verbatim>\<open>default\<close> branch: it writes the line to the output channel and rethrows.
\<close>

definition chat :: "runtime \<Rightarrow> AIClient \<Rightarrow> AIMessage list \<Rightarrow> outcome" where
  "chat rt c messages =
     (let filteredMessages = filterDiagnosticMessages messages in
      if provider c = ''anthropic'' then anthropicChat rt c filteredMessages
      else if provider c = ''openai'' then openaiChat rt c filteredMessages
      else if provider c = ''google'' then googleChat rt c filteredMessages
      else if provider c = ''cohere'' then cohereChat rt c filteredMessages
      else if provider c = ''mistral'' then mistralChat rt c filteredMessages
      else (let e = Error (''Unsupported provider: '' @ provider c) in
            (throws c e)\<lparr>logged := [[CHR 0x0A, CHR 0x0A] @ ''Mode Client Error: '' @ message_of e]\<rparr>))"

section \<open>The chat manager (chat.manager.ts)\<close>

text \<open>
  \<^verbatim>\<open>generateSessionOverview\<close>. The client this file imports is not the one above (its
  \<^verbatim>\<open>chat\<close> takes the messages and the callbacks only), so the client is a parameter: the
  behaviour of its \<^verbatim>\<open>chat\<close> on a message list, or \<open>None\<close> for \<^verbatim>\<open>this.aiClient === null\<close>.
  The prompt text \<^verbatim>\<open>SESSION_SUMMARY_PROMPT\<close> is a parameter too. \<^verbatim>\<open>overview\<close> starts empty
  and \<^verbatim>\<open>onComplete\<close> assigns it; \<^verbatim>\<open>onToken\<close> does nothing.
\<close>

definition summary_messages :: "string \<Rightarrow> string \<Rightarrow> AIMessage list" where
  "summary_messages prompt msg =
     [\<lparr>role = System, content = Text prompt, name = None, msg_type = None\<rparr>,
      \<lparr>role = User, content = Text msg, name = None, msg_type = None\<rparr>]"

definition generateSessionOverview ::
  "string \<Rightarrow> (AIMessage list \<Rightarrow> outcome) option \<Rightarrow> string \<Rightarrow> string" where
  "generateSessionOverview prompt aiClient msg =
     (case aiClient of
        None \<Rightarrow> ''New Chat''
      | Some client_chat \<Rightarrow>
          (let out = client_chat (summary_messages prompt msg) in
           case result out of
             Inl e \<Rightarrow> ''New Chat''
           | Inr _ \<Rightarrow>
               (let overview = foldl (\<lambda>_ fullText. fullText) [] (completions out) in
                if overview = [] then ''New Chat'' else overview)))"

text \<open>
  \<^verbatim>\<open>sendMessage\<close>. \<open>init\<close> is the result of \<^verbatim>\<open>initializeClient\<close> and \<open>primary\<close> the outcome
  of the awaited part that follows it (system prompt, \<^verbatim>\<open>handleMessage\<close>,
  \<^verbatim>\<open>saveSessions\<close>), both built on modules outside this development. The overview is
  generated last and not awaited: its value goes to \<^verbatim>\<open>updateCurrentSessionOverview\<close>
  after \<^verbatim>\<open>sendMessage\<close> has returned.
\<close>

record sent =
  returned :: "error + unit"
  chat_errors :: "string option list"
  overview_update :: "string option"

definition sendMessage ::
  "string \<Rightarrow> bool \<times> string option \<Rightarrow> (AIMessage list \<Rightarrow> outcome) option \<Rightarrow> error + unit
     \<Rightarrow> string \<Rightarrow> sent" where
  "sendMessage prompt init aiClient primary msg =
     (if \<not> fst init then
        \<lparr>returned = Inr (), chat_errors = [snd init], overview_update = None\<rparr>
      else
        (case primary of
           Inl e \<Rightarrow> \<lparr>returned = Inl e, chat_errors = [], overview_update = None\<rparr>
         | Inr _ \<Rightarrow>
             \<lparr>returned = Inr (), chat_errors = [],
              overview_update = Some (generateSessionOverview prompt aiClient msg)\<rparr>))"

section \<open>Notions used to state the properties\<close>

text \<open>
  A diagnostic message, in the words of the specification: its text starts with the
  sentinel \<^verbatim>\<open>Mode.\<close>, or one of its parts is a raw string or a text-typed part that
  starts with it.
\<close>

definition has_sentinel :: "string \<Rightarrow> bool" where
  "has_sentinel s = (take 5 s = ''Mode.'')"

definition is_diagnostic :: "AIMessage \<Rightarrow> bool" where
  "is_diagnostic msg =
     (case content msg of
        Text s \<Rightarrow> has_sentinel s
      | Parts items \<Rightarrow>
          (\<exists>item \<in> set items.
             case item of
               PString s \<Rightarrow> has_sentinel s
             | PObject ty tx fs \<Rightarrow> ty = Some ''text'' \<and> (\<exists>t. tx = Some t \<and> has_sentinel t)))"

text \<open>The prefix of a data URL: what stands before the comma that starts the payload.\<close>

definition data_url_header :: "string \<Rightarrow> string" where
  "data_url_header url = takeWhile (\<lambda>ch. ch \<noteq> CHR '','') url"

text \<open>Two calls of \<^verbatim>\<open>createClient\<close> in sequence, the second on the state the first left.\<close>

definition createClient_twice ::
  "environment \<Rightarrow> string \<Rightarrow> string \<Rightarrow> factory
     \<Rightarrow> error + (create_result \<times> create_result \<times> factory \<times> factory)" where
  "createClient_twice env p m f =
     (case createClient env p m f of
        Inl e \<Rightarrow> Inl e
      | Inr (r1, f1) \<Rightarrow>
          (case createClient env p m f1 of
             Inl e \<Rightarrow> Inl e
           | Inr (r2, f2) \<Rightarrow> Inr (r1, r2, f1, f2)))"

text \<open>
  The stream that one call of \<^verbatim>\<open>chat\<close> consumes, every chunk replaced by the text its
  adapter takes from it; \<open>None\<close> when the call fails before a request is sent.
  \<open>fragments\<close> are the non-empty texts of a run of events, that is the tokens the
  loop delivers while it reads them, and \<open>only_text_chunks\<close> says that a run consists
  of chunks whose text can be taken.
\<close>

definition selected_stream ::
  "runtime \<Rightarrow> AIClient \<Rightarrow> AIMessage list \<Rightarrow> (error + string) response option" where
  "selected_stream rt c messages =
     (let filtered = filterDiagnosticMessages messages in
      if provider c = ''anthropic'' then
        (case anthropicClient c of
           None \<Rightarrow> None
         | Some h \<Rightarrow> Some (map_response anthropic_text
                             (anthropic_create rt (anthropic_build c filtered))))
      else if provider c = ''openai'' then
        (case openaiClient c of
           None \<Rightarrow> None
         | Some h \<Rightarrow>
             (case model c of
                None \<Rightarrow> None
              | Some mdl \<Rightarrow> Some (map_response openai_text
                                    (openai_create rt (openai_build mdl filtered)))))
      else if provider c = ''google'' then
        (if googleClient c = None \<or> googleFileManager c = None
            \<or> google_processed filtered = [] then None
         else Some (map_response google_text
                      (google_sendMessageStream rt (google_build c (google_processed filtered)))))
      else if provider c = ''cohere'' then
        (case cohereClient c of
           None \<Rightarrow> None
         | Some h \<Rightarrow> Some (map_response cohere_text
                             (cohere_chatStream rt (cohere_build c filtered))))
      else if provider c = ''mistral'' then
        (case mistralClient c of
           None \<Rightarrow> None
         | Some h \<Rightarrow> Some (map_response mistral_text
                             (mistral_stream rt (mistral_build (json_stringify rt) c filtered))))
      else None)"

definition opens_before_try :: "AIClient \<Rightarrow> bool" where
  "opens_before_try c = (provider c = ''anthropic'' \<or> provider c = ''openai'')"

definition fragments :: "(error + string) event list \<Rightarrow> string list" where
  "fragments es =
     concat (map (\<lambda>ev. case ev of Chunk (Inr t) \<Rightarrow> (if t = [] then [] else [t]) | _ \<Rightarrow> []) es)"

definition only_text_chunks :: "(error + string) event list \<Rightarrow> bool" where
  "only_text_chunks es = list_all (\<lambda>ev. case ev of Chunk (Inr t) \<Rightarrow> True | _ \<Rightarrow> False) es"

text \<open>The text a call handed to \<^verbatim>\<open>onComplete\<close>, empty when it never called it.\<close>

definition completed_text :: "outcome \<Rightarrow> string" where
  "completed_text out = (if completions out = [] then [] else last (completions out))"

section \<open>Example data\<close>

text \<open>
  An SDK whose constructors succeed, a credential store that knows every provider but
  \<^verbatim>\<open>X\<close>, a model table that knows every model, and transports with fixed scripts: the
  owner stops the Anthropic stream after two tokens, the OpenAI stream breaks after
  one token, the Google stream breaks after a stop request.
\<close>

definition sample_sdk :: sdk where
  "sample_sdk =
     \<lparr>new_Anthropic = (\<lambda>k. Inr (Handle k)), new_OpenAI = (\<lambda>k. Inr (Handle k)),
      new_GoogleGenerativeAI = (\<lambda>k. Inr (Handle k)),
      new_GoogleAIFileManager = (\<lambda>k. Inr (Handle k)),
      new_Cohere = (\<lambda>k. Inr (Handle k)), new_Mistral = (\<lambda>k. Inr (Handle k))\<rparr>"

definition sample_env :: environment where
  "sample_env =
     \<lparr>getApiKey = (\<lambda>p. if p = ''X'' then None else Some ''secret''),
      getModelInfo = (\<lambda>m. Some None), sdks = sample_sdk\<rparr>"

definition sample_runtime :: runtime where
  "sample_runtime =
     \<lparr>anthropic_create = (\<lambda>req. Response False (Inr
         [Chunk (AnthropicChunk ''content_block_delta'' (Some (AnthropicDelta ''text_delta'' ''Hel''))),
          Chunk (AnthropicChunk ''content_block_delta'' (Some (AnthropicDelta ''text_delta'' ''lo''))),
          Stop,
          Chunk (AnthropicChunk ''content_block_delta'' (Some (AnthropicDelta ''text_delta'' ''!'')))])),
      openai_create = (\<lambda>req. Response False (Inr
         [Chunk (OpenAIChunk [Some (Some ''par'')]), StreamError (Error ''socket hang up'')])),
      google_sendMessageStream = (\<lambda>req. Response False (Inr
         [Chunk (GoogleChunk (Inr ''par'')), Stop, StreamError (Error ''socket hang up'')])),
      cohere_chatStream = (\<lambda>req. Response False (Inr
         [Chunk (CohereChunk ''content-delta'' (Some ''ok''))])),
      mistral_stream = (\<lambda>req. Response False (Inr [Chunk (MistralChunk [MText ''ok''])])),
      json_stringify = (\<lambda>ps. ''[]'')\<rparr>"

definition sample_client :: "string \<Rightarrow> AIClient" where
  "sample_client p =
     (case new_AIClient sample_sdk
             \<lparr>cfg_provider = p, cfg_apiKey = Some ''secret'', cfg_model = None,
              cfg_endpoint = None\<rparr> of
        Inl e \<Rightarrow> fresh_client p
      | Inr c \<Rightarrow> c)"

definition user_says :: "string \<Rightarrow> AIMessage" where
  "user_says s = \<lparr>role = User, content = Text s, name = None, msg_type = None\<rparr>"

definition image_message :: AIMessage where
  "image_message =
     \<lparr>role = User, content = Text ''data:image/png;base64,AAAA'', name = None,
      msg_type = Some ''image''\<rparr>"

definition sample_history :: "AIMessage list" where
  "sample_history =
     [user_says ''hello'',
      \<lparr>role = Assistant, content = Text ''Mode.FunctionCall'', name = None, msg_type = None\<rparr>,
      \<lparr>role = User, content = Parts [PObject (Some ''text'') (Some ''Mode.note'') []],
       name = None, msg_type = None\<rparr>,
      \<lparr>role = User, content = Parts [PObject (Some ''image'') (Some ''Mode.x'') [], PString ''ok''],
       name = None, msg_type = None\<rparr>]"

definition cached_openai :: factory where
  "cached_openai =
     \<lparr>instances = [(''openai-gpt-4'', 0)],
      objects = [(fresh_client ''openai'')\<lparr>openaiClient := Some (Handle (Some ''secret'')),
                                            model := Some ''gpt-4''\<rparr>],
      initialized = True\<rparr>"



section \<open>Properties of the message normaliser\<close>

lemma startsWith_take: "startsWith s p = (take (length p) s = p)"
  unfolding startsWith_def
  by (metis append_eq_conv_conj prefix_def append_take_drop_id)

lemma startsWith_sentinel: "startsWith s ''Mode.'' = has_sentinel s"
  by (simp add: startsWith_take has_sentinel_def eval_nat_numeral)

lemma some_item_iff:
  "some_item item =
     (case item of
        PString s \<Rightarrow> has_sentinel s
      | PObject ty tx fs \<Rightarrow> ty = Some ''text'' \<and> (\<exists>t. tx = Some t \<and> has_sentinel t))"
  by (cases item) (auto simp: startsWith_sentinel split: option.splits)

lemma keep_message_iff: "keep_message = (\<lambda>msg. \<not> is_diagnostic msg)"
  by (rule ext)
    (simp add: keep_message_def is_diagnostic_def startsWith_sentinel list_ex_iff some_item_iff
      split: content.splits)

text \<open>
  Claim C2. For every message list, \<^verbatim>\<open>filterDiagnosticMessages\<close> removes exactly the
  messages whose string content starts with \<^verbatim>\<open>Mode.\<close> or whose array content holds a
  raw string or a text-typed part starting with it; every other message is passed on
  unchanged, and the survivors keep their relative order.
\<close>

theorem filterDiagnostic_exact:
  "filterDiagnosticMessages msgs = filter (\<lambda>m. \<not> is_diagnostic m) msgs
   \<and> subseq (filterDiagnosticMessages msgs) msgs
   \<and> set (filterDiagnosticMessages msgs) = {m \<in> set msgs. \<not> is_diagnostic m}"
  by (simp add: filterDiagnosticMessages_def keep_message_iff)

theorem filterDiagnostic_exact_witness:
  "filterDiagnosticMessages sample_history =
     [user_says ''hello'',
      \<lparr>role = User, content = Parts [PObject (Some ''image'') (Some ''Mode.x'') [], PString ''ok''],
       name = None, msg_type = None\<rparr>]
   \<and> filter (\<lambda>m. \<not> is_diagnostic m) sample_history =
     [user_says ''hello'',
      \<lparr>role = User, content = Parts [PObject (Some ''image'') (Some ''Mode.x'') [], PString ''ok''],
       name = None, msg_type = None\<rparr>]"
  using filterDiagnostic_exact [of sample_history]
  by (simp add: sample_history_def user_says_def filterDiagnosticMessages_def keep_message_def
        startsWith_def)

lemma media_type_iff:
  "media_type d =
     (if (\<exists>rest. d = ''data:image/png'' @ rest) then ''image/png'' else ''image/jpeg'')"
  unfolding media_type_def startsWith_def prefix_def by simp

text \<open>
  Claim C7, as the code has it. \<^verbatim>\<open>formatImageContent\<close> for \<^verbatim>\<open>anthropic\<close> applied to
  \<^verbatim>\<open>data:image/png;base64,AAAA\<close> yields an image block with media type \<^verbatim>\<open>image/png\<close>
  and payload \<^verbatim>\<open>AAAA\<close>, followed by the text block \<^verbatim>\<open>Describe this image.\<close>; and for
  every image string the result has this shape, with media type \<^verbatim>\<open>image/png\<close> exactly
  when the string begins with \<^verbatim>\<open>data:image/png\<close> and \<^verbatim>\<open>image/jpeg\<close> otherwise.
\<close>

theorem formatImage_anthropic:
  "formatImageContent ''anthropic'' ''data:image/png;base64,AAAA'' =
     FParts [PObject (Some ''image'') None
               [(''source'', JObj [(''type'', JStr ''base64''), (''media_type'', JStr ''image/png''),
                                   (''data'', JStr ''AAAA'')])],
             PObject (Some ''text'') (Some ''Describe this image.'') []]
   \<and> formatImageContent ''anthropic'' d =
     FParts [PObject (Some ''image'') None
               [(''source'', JObj [(''type'', JStr ''base64''),
                                   (''media_type'',
                                      JStr (if (\<exists>rest. d = ''data:image/png'' @ rest)
                                            then ''image/png'' else ''image/jpeg'')),
                                   (''data'', JStr (strip_data_url d))])],
             PObject (Some ''text'') (Some ''Describe this image.'') []]"
  unfolding formatImageContent_def media_type_iff[symmetric]
  by (simp add: media_type_def strip_data_url_def startsWith_def)

theorem formatImage_anthropic_witness:
  "formatImageContent ''anthropic'' ''data:image/jpeg;base64,BBBB'' =
     FParts [PObject (Some ''image'') None
               [(''source'', JObj [(''type'', JStr ''base64''), (''media_type'', JStr ''image/jpeg''),
                                   (''data'', JStr ''BBBB'')])],
             PObject (Some ''text'') (Some ''Describe this image.'') []]"
  using formatImage_anthropic [of "''data:image/jpeg;base64,BBBB''"]
  by (simp add: strip_data_url_def startsWith_def)

text \<open>
  The claim speaks of a prefix that contains \<^verbatim>\<open>image/png\<close>. The prefix of the data URL
  below contains it, in a parameter, and the media type detected is \<^verbatim>\<open>image/jpeg\<close>.
\<close>

theorem formatImage_contains_counterexample:
  "sublist ''image/png'' (data_url_header ''data:image/jpeg;x=image/png;base64,AAAA'')
   \<and> formatImageContent ''anthropic'' ''data:image/jpeg;x=image/png;base64,AAAA'' =
     FParts [PObject (Some ''image'') None
               [(''source'', JObj [(''type'', JStr ''base64''), (''media_type'', JStr ''image/jpeg''),
                                   (''data'', JStr ''data:image/jpeg;x=image/png;base64,AAAA'')])],
             PObject (Some ''text'') (Some ''Describe this image.'') []]"
  by (simp add: formatImageContent_def media_type_def strip_data_url_def startsWith_def
        data_url_header_def sublist_code)

section \<open>Properties of the client factory\<close>

lemma map_of_map_set: "map_of (map_set k v xs) = (map_of xs)(k \<mapsto> v)"
  by (induction xs) (auto simp: fun_eq_iff)





text \<open>
  A first call succeeds on an uncached key when the provider needs no key or the
  store has a non-empty one, the model is known and the SDK constructor does not throw;
  it constructs one client and caches its reference.
\<close>

lemma createClient_succeeds:
  assumes "getInstance p m f = None"
    and "p = ''ollama'' \<or> (initialized f \<and> \<not> no_key (getApiKey env p))"
    and "getModelInfo env m = Some ep"
    and "new_AIClient (sdks env)
           \<lparr>cfg_provider = p,
            cfg_apiKey = (if p = ''ollama'' then None else getApiKey env p),
            cfg_model = Some m, cfg_endpoint = ep\<rparr> = Inr c"
  shows "createClient env p m f =
           Inr (\<lparr>success = True, message = None, client = Some (length (objects f))\<rparr>,
                f\<lparr>objects := objects f @ [c],
                  instances := map_set (instanceKey p m) (length (objects f)) (instances f)\<rparr>)"
  using assms by (auto simp: createClient_def getInstance_def Let_def)

text \<open>
  Claim C3, as the code has it. For all providers and models, if a call of
  \<^verbatim>\<open>createClient\<close> succeeds, a second call for the same provider and model with no
  invalidation in between succeeds too, whatever the credential store and the model
  table then say: it returns the same reference, which is the one cached under the
  key, and leaves the factory as it was, so nothing is constructed.
\<close>

theorem createClient_cached:
  assumes "createClient env p m f = Inr (r1, f1)" and "success r1"
  shows "createClient env' p m f1 = Inr (r1, f1)
       \<and> createClient_twice env p m f = Inr (r1, r1, f1, f1)
       \<and> (\<exists>ref. client r1 = Some ref \<and> getInstance p m f1 = Some ref)"
proof -
  have again: "createClient e p m f1 = Inr (r1, f1)
      \<and> (\<exists>ref. client r1 = Some ref \<and> getInstance p m f1 = Some ref)" for e
    using assms
    by (auto simp: createClient_def getInstance_def Let_def map_of_map_set
        split: option.splits if_splits sum.splits)
  show ?thesis
    using again[of env'] again[of env] assms(1) by (simp add: createClient_twice_def)
qed

theorem createClient_cached_witness:
  "createClient_twice sample_env ''openai'' ''gpt-4'' (initialize empty_factory) =
     Inr (\<lparr>success = True, message = None, client = Some 0\<rparr>,
          \<lparr>success = True, message = None, client = Some 0\<rparr>, cached_openai, cached_openai)"
proof -
  have first: "createClient sample_env ''openai'' ''gpt-4'' (initialize empty_factory) =
      Inr (\<lparr>success = True, message = None, client = Some 0\<rparr>, cached_openai)"
    by (simp add: createClient_def sample_env_def sample_sdk_def initialize_def empty_factory_def
          instanceKey_def no_key_def new_AIClient_def fresh_client_def model_or_def
          cached_openai_def)
  show ?thesis
    using createClient_cached [OF first, of sample_env] by simp
qed

text \<open>
  The claim has both calls succeed for every provider and model. With no credential
  for the provider both calls fail.
\<close>

theorem createClient_twice_counterexample:
  "createClient_twice sample_env ''X'' ''m1'' (initialize empty_factory) =
     Inr (\<lparr>success = False, message = Some ''APIKey.X.Missing'', client = None\<rparr>,
          \<lparr>success = False, message = Some ''APIKey.X.Missing'', client = None\<rparr>,
          initialize empty_factory, initialize empty_factory)"
  by (simp add: createClient_twice_def createClient_def sample_env_def initialize_def
        empty_factory_def instanceKey_def no_key_def)




text \<open>
  Claim C5. For a provider \<open>x\<close> other than \<^verbatim>\<open>ollama\<close> (the one that needs no
  credential) and any model, when the credential store has nothing for \<open>x\<close> and
  nothing is cached under the key, \<^verbatim>\<open>createClient\<close> returns the failure with message
  \<^verbatim>\<open>APIKey.x.Missing\<close> and leaves the factory as it was: no client is constructed and
  the cache stays empty for the key.
\<close>

theorem createClient_missing_credential:
  assumes "x \<noteq> ''ollama''" and "getApiKey env x = None"
    and "getInstance x m1 f = None"
  shows "createClient env x m1 f =
           Inr (\<lparr>success = False, message = Some (''APIKey.'' @ x @ ''.Missing''), client = None\<rparr>, f)
       \<and> getInstance x m1 f = None"
  using assms by (simp add: createClient_def no_key_def getInstance_def)

theorem createClient_missing_credential_witness:
  "createClient sample_env ''X'' ''m1'' (initialize empty_factory) =
     Inr (\<lparr>success = False, message = Some ''APIKey.X.Missing'', client = None\<rparr>,
          initialize empty_factory)
   \<and> getInstance ''X'' ''m1'' (initialize empty_factory) = None"
  using createClient_missing_credential [of "''X''" sample_env "''m1''" "initialize empty_factory"]
  by (simp add: sample_env_def initialize_def empty_factory_def getInstance_def)

section \<open>Properties of the streaming loop\<close>

lemmas sample_defs = sample_runtime_def sample_client_def sample_sdk_def user_says_def
  new_AIClient_def fresh_client_def model_or_def

lemmas chat_defs = chat_def anthropicChat_def openaiChat_def googleChat_def cohereChat_def
  mistralChat_def throws_def settle_def open_before_try_def open_inside_try_def

text \<open>Taking the text inside the loop or before it makes no difference.\<close>

lemma consume_map:
  "consume f (map (map_event g) es) cancelled fullText toks =
   consume (\<lambda>x. f (g x)) es cancelled fullText toks"
proof (induction es arbitrary: cancelled fullText toks)
  case Nil
  then show ?case by simp
next
  case (Cons ev es)
  then show ?case by (cases ev) (simp_all split: sum.splits)
qed

lemma open_before_try_map:
  "open_before_try (\<lambda>x. x) (map_response g r) = open_before_try g r"
  by (cases r) (simp add: open_before_try_def consume_map split: sum.splits)

lemma open_inside_try_map:
  "open_inside_try (\<lambda>x. x) (map_response g r) = open_inside_try g r"
  by (cases r) (simp add: open_inside_try_def consume_map split: sum.splits)

lemma chat_selected:
  assumes "selected_stream rt c messages = Some r"
  shows "chat rt c messages =
           settle (c\<lparr>isCancelled := False\<rparr>)
             (if opens_before_try c then open_before_try (\<lambda>x. x) r
              else open_inside_try (\<lambda>x. x) r)"
  using assms
  by (auto simp: selected_stream_def chat_def opens_before_try_def Let_def
        anthropicChat_def openaiChat_def googleChat_def cohereChat_def mistralChat_def
        open_before_try_map open_inside_try_map
      split: if_splits option.splits)

lemma consume_text_chunks:
  assumes "only_text_chunks pre"
  shows "consume (\<lambda>x. x) (pre @ rest) False fullText toks =
         consume (\<lambda>x. x) rest False (fullText @ concat (fragments pre)) (toks @ fragments pre)"
  using assms
proof (induction pre arbitrary: fullText toks)
  case Nil
  then show ?case by (simp add: fragments_def)
next
  case (Cons ev pre)
  then obtain t where ev: "ev = Chunk (Inr t)" and rest: "only_text_chunks pre"
    by (auto simp: only_text_chunks_def split: event.splits sum.splits)
  have fr: "fragments (Chunk (Inr t) # pre) = (if t = [] then [] else [t]) @ fragments pre"
    by (simp add: fragments_def)
  show ?case
    using Cons.IH[OF rest] by (simp add: ev fr)
qed


lemma consume_stops:
  "consume f (replicate n Stop @ es) cancelled fullText toks =
   consume f es (cancelled \<or> 0 < n) fullText toks"
  by (induction n arbitrary: cancelled) auto



text \<open>
  The flag is read when a chunk arrives or the stream raises, not when the stream
  ends: a stop request that comes after the last chunk is not observed, and the call
  completes.
\<close>

lemma cancel_after_last_chunk:
  assumes sel: "selected_stream rt c messages =
                  Some (Response False (Inr (pre @ replicate (Suc n) Stop)))"
    and pre: "only_text_chunks pre"
  shows "completions (chat rt c messages) = [concat (fragments pre)]"
proof -
  have run: "consume (\<lambda>x. x) (pre @ replicate (Suc n) Stop) False [] [] =
             (Inr (concat (fragments pre)), fragments pre, [concat (fragments pre)], True)"
    using consume_stops[of "\<lambda>x. x" "Suc n" "[]" False]
    by (simp add: consume_text_chunks[OF pre] del: replicate.simps)
  show ?thesis
    by (simp add: chat_selected[OF sel] open_before_try_def open_inside_try_def run settle_def
          del: replicate.simps)
qed

text \<open>
  Claim C6. For every call of \<^verbatim>\<open>chat\<close> that reaches its stream: when the stream raises
  the error \<open>e\<close> after the events \<open>pre\<close> and \<open>n\<close> stop requests, the call throws \<open>e\<close>
  itself if no stop was requested (neither while the stream was opened, \<open>s\<close>, nor
  since), and otherwise returns the text accumulated so far without throwing; in both
  cases \<^verbatim>\<open>onComplete\<close> is not called. A stop requested while the stream was opened is
  still pending at the error only if no chunk came before it.
\<close>

theorem stream_error:
  assumes sel: "selected_stream rt c messages =
                  Some (Response s (Inr (pre @ replicate n Stop @ StreamError e # post)))"
    and pre: "only_text_chunks pre"
    and early: "\<not> s \<or> pre = []"
  shows "result (chat rt c messages) =
           (if s \<or> 0 < n then Inr (concat (fragments pre)) else Inl e)
       \<and> tokens (chat rt c messages) = fragments pre
       \<and> completions (chat rt c messages) = []"
proof -
  have run: "consume (\<lambda>x. x) (pre @ replicate n Stop @ StreamError e # post) s [] [] =
             ((if s \<or> 0 < n then Inr (concat (fragments pre)) else Inl e), fragments pre, [],
              s \<or> 0 < n)"
  proof (cases s)
    case True
    with early have "pre = []" by simp
    then show ?thesis using True by (simp add: consume_stops fragments_def)
  next
    case False
    then show ?thesis
      by (simp add: consume_text_chunks[OF pre] consume_stops)
  qed
  have ch: "chat rt c messages =
      settle (c\<lparr>isCancelled := False\<rparr>)
        (consume (\<lambda>x. x) (pre @ replicate n Stop @ StreamError e # post) s [] [])"
    by (simp add: chat_selected[OF sel] open_before_try_def open_inside_try_def)
  show ?thesis
    unfolding ch run by (simp add: settle_def)
qed

theorem stream_error_witness:
  "result (chat sample_runtime (sample_client ''openai'') [user_says ''hi'']) =
     Inl (Error ''socket hang up'')
   \<and> tokens (chat sample_runtime (sample_client ''openai'') [user_says ''hi'']) = [''par'']
   \<and> result (chat sample_runtime (sample_client ''google'') [user_says ''hi'']) = Inr ''par''
   \<and> completions (chat sample_runtime (sample_client ''google'') [user_says ''hi'']) = []"
  using stream_error [of sample_runtime "sample_client ''openai''" "[user_says ''hi'']" False
      "[Chunk (Inr ''par'')]" 0 "Error ''socket hang up''" "[]"]
    stream_error [of sample_runtime "sample_client ''google''" "[user_says ''hi'']" False
      "[Chunk (Inr ''par'')]" 1 "Error ''socket hang up''" "[]"]
  by (simp add: selected_stream_def sample_defs openai_text_def google_text_def fragments_def
        only_text_chunks_def filterDiagnosticMessages_def keep_message_def startsWith_def
        google_processed_def)

section \<open>Properties of \<^verbatim>\<open>chat\<close> and of the constructor\<close>

text \<open>
  Claim C10. Constructing a client with a provider id outside the five the constructor
  knows never fails: the client has no backend handle and no model. Every call of
  \<^verbatim>\<open>chat\<close> on a client with that provider id, in whatever state it is, throws
  \<^verbatim>\<open>Unsupported provider: <id>\<close>, calls no callback and leaves the client as it was, so
  the failure is met at the first call and at every later one.
\<close>

theorem unsupported_provider_deferred:
  assumes "cfg_provider config \<notin> {''anthropic'', ''openai'', ''google'', ''cohere'', ''mistral''}"
  shows "(\<exists>c0. new_AIClient k config = Inr c0 \<and> provider c0 = cfg_provider config
            \<and> model c0 = None \<and> anthropicClient c0 = None \<and> openaiClient c0 = None
            \<and> googleClient c0 = None \<and> googleFileManager c0 = None
            \<and> cohereClient c0 = None \<and> mistralClient c0 = None)
       \<and> (provider c = cfg_provider config \<longrightarrow>
            result (chat rt c messages) = Inl (Error (''Unsupported provider: '' @ provider c))
            \<and> tokens (chat rt c messages) = [] \<and> completions (chat rt c messages) = []
            \<and> client_after (chat rt c messages) = c)"
  using assms by (simp add: new_AIClient_def fresh_client_def chat_def throws_def)

theorem unsupported_provider_deferred_witness:
  "new_AIClient sample_sdk \<lparr>cfg_provider = ''ollama'', cfg_apiKey = None, cfg_model = Some ''llama3'',
      cfg_endpoint = None\<rparr> = Inr (fresh_client ''ollama'')
   \<and> result (chat sample_runtime (stopGeneration (fresh_client ''ollama'')) [user_says ''hi'']) =
       Inl (Error ''Unsupported provider: ollama'')"
  using unsupported_provider_deferred [of "\<lparr>cfg_provider = ''ollama'', cfg_apiKey = None,
      cfg_model = Some ''llama3'', cfg_endpoint = None\<rparr>" sample_sdk
      "stopGeneration (fresh_client ''ollama'')" sample_runtime "[user_says ''hi'']"]
  by (simp add: new_AIClient_def fresh_client_def stopGeneration_def)

lemma filterDiagnostic_filter:
  "filterDiagnosticMessages (filter P ms) = filter P (filterDiagnosticMessages ms)"
  by (simp add: filterDiagnosticMessages_def conj_commute)

lemma mistral_build_drop:
  "mistral_build str c (filter (\<lambda>m. msg_type m \<noteq> Some ''image'') ms) = mistral_build str c ms"
  by (simp add: mistral_build_def)

lemma cohere_build_drop:
  "cohere_build c (filter (\<lambda>m. msg_type m \<noteq> Some ''image'') ms) = cohere_build c ms"
  by (simp add: cohere_build_def)

text \<open>
  Claim C8, as the code has it. For the providers without vision, \<^verbatim>\<open>mistral\<close> and
  \<^verbatim>\<open>cohere\<close>, \<^verbatim>\<open>formatImageContent\<close> yields for every image the placeholder
  \<^verbatim>\<open>[Image input not supported for <provider>]\<close> and raises no error; a call of \<^verbatim>\<open>chat\<close>
  on such a provider drops the messages marked as images before the request is built,
  so it behaves in every respect as on the history without them.
\<close>

theorem no_vision_provider:
  assumes "provider c = ''mistral'' \<or> provider c = ''cohere''"
  shows "formatImageContent (provider c) imageData =
           FText (''[Image input not supported for '' @ provider c @ '']'')
       \<and> chat rt c messages = chat rt c (filter (\<lambda>m. msg_type m \<noteq> Some ''image'') messages)"
  using assms
  by (auto simp: formatImageContent_def chat_def mistralChat_def cohereChat_def
        filterDiagnostic_filter mistral_build_drop cohere_build_drop Let_def
      split: option.splits)

theorem no_vision_provider_witness:
  "formatImageContent ''mistral'' ''data:image/png;base64,AAAA'' =
     FText ''[Image input not supported for mistral]''
   \<and> chat sample_runtime (sample_client ''mistral'') [user_says ''hello'', image_message] =
     chat sample_runtime (sample_client ''mistral'') [user_says ''hello'']"
  using no_vision_provider [of "sample_client ''mistral''" "''data:image/png;base64,AAAA''"
      sample_runtime "[user_says ''hello'', image_message]"]
  by (simp add: sample_defs image_message_def)

text \<open>
  The claim has the placeholder as the outcome of a request whose history holds an
  image message. The request sent to Mistral for such a history holds the other
  message only, and the call returns what the backend streamed.
\<close>

theorem no_vision_placeholder_counterexample:
  "mr_messages (mistral_build (json_stringify sample_runtime) (sample_client ''mistral'')
      (filterDiagnosticMessages [user_says ''hello'', image_message])) = [(User, ''hello'')]
   \<and> result (chat sample_runtime (sample_client ''mistral'') [user_says ''hello'', image_message]) =
      Inr ''ok''
   \<and> tokens (chat sample_runtime (sample_client ''mistral'') [user_says ''hello'', image_message]) =
      [''ok'']"
  by (simp add: sample_defs image_message_def chat_defs mistral_build_def
        filterDiagnosticMessages_def keep_message_def startsWith_def mistral_text_def)

text \<open>A call completes at most once, and then with the text it returns.\<close>

lemma consume_completions:
  "consume f es cancelled fullText toks = (res, toks', calls, cancelled') \<Longrightarrow>
   calls = [] \<or> (\<exists>t. calls = [t] \<and> res = Inr t)"
proof (induction f es cancelled fullText toks rule: consume.induct)
  case (1 text_of cancelled fullText toks)
  then show ?case by auto
next
  case (2 text_of es cancelled fullText toks)
  then show ?case by simp
next
  case (3 text_of e es cancelled fullText toks)
  then show ?case by (auto split: if_splits)
next
  case (4 text_of chunk es cancelled fullText toks)
  then show ?case by (auto split: if_splits sum.splits)
qed

lemma open_completions:
  assumes "open_before_try f x = (res, toks, calls, canc)
           \<or> open_inside_try f x = (res, toks, calls, canc)"
  shows "calls = [] \<or> (\<exists>t. calls = [t] \<and> res = Inr t)"
proof (cases "opened x")
  case (Inl e)
  with assms show ?thesis
    by (auto simp: open_before_try_def open_inside_try_def split: if_splits)
next
  case (Inr es)
  with assms have "consume f es (stop_while_opening x) [] [] = (res, toks, calls, canc)"
    by (auto simp: open_before_try_def open_inside_try_def)
  then show ?thesis by (rule consume_completions)
qed

lemma settle_completions:
  "completions (settle c (open_before_try f x)) = []
   \<or> (\<exists>t. completions (settle c (open_before_try f x)) = [t]
          \<and> result (settle c (open_before_try f x)) = Inr t)"
  "completions (settle c (open_inside_try f x)) = []
   \<or> (\<exists>t. completions (settle c (open_inside_try f x)) = [t]
          \<and> result (settle c (open_inside_try f x)) = Inr t)"
proof -
  obtain res toks calls canc where r: "open_before_try f x = (res, toks, calls, canc)"
    by (cases "open_before_try f x" rule: prod_cases4)
  obtain res' toks' calls' canc' where r': "open_inside_try f x = (res', toks', calls', canc')"
    by (cases "open_inside_try f x" rule: prod_cases4)
  show "completions (settle c (open_before_try f x)) = []
   \<or> (\<exists>t. completions (settle c (open_before_try f x)) = [t]
          \<and> result (settle c (open_before_try f x)) = Inr t)"
    using open_completions[OF disjI1[OF r]] by (simp add: r settle_def)
  show "completions (settle c (open_inside_try f x)) = []
   \<or> (\<exists>t. completions (settle c (open_inside_try f x)) = [t]
          \<and> result (settle c (open_inside_try f x)) = Inr t)"
    using open_completions[OF disjI2[OF r']] by (simp add: r' settle_def)
qed

lemma chat_completions:
  "completions (chat rt c ms) = []
   \<or> (\<exists>t. completions (chat rt c ms) = [t] \<and> result (chat rt c ms) = Inr t)"
  by (simp add: chat_def anthropicChat_def openaiChat_def googleChat_def cohereChat_def
        mistralChat_def throws_def Let_def settle_completions split: option.splits)

section \<open>Properties of the chat manager\<close>

lemma overview_cases:
  "generateSessionOverview prompt (Some client_chat) msg =
     (if isl (result (client_chat (summary_messages prompt msg)))
         \<or> completed_text (client_chat (summary_messages prompt msg)) = []
      then ''New Chat''
      else completed_text (client_chat (summary_messages prompt msg)))"
proof -
  have last_fold: "foldl (\<lambda>_ fullText. fullText) a xs = (if xs = [] then a else last xs)"
    for a :: string and xs
    by (induction xs arbitrary: a) auto
  show ?thesis
    by (auto simp: generateSessionOverview_def completed_text_def last_fold Let_def isl_def
        split: sum.splits)
qed

text \<open>With the client modelled above, a summary call that returns no text gives the default label.\<close>

lemma overview_of_empty_chat:
  assumes "result (chat rt c (summary_messages prompt msg)) = Inr []"
  shows "generateSessionOverview prompt (Some (chat rt c)) msg = ''New Chat''"
  using assms chat_completions[of rt c "summary_messages prompt msg"]
  by (auto simp: overview_cases completed_text_def)

text \<open>
  Claim C9. Once the primary exchange has completed, \<^verbatim>\<open>sendMessage\<close> generates the
  overview with a second call of \<^verbatim>\<open>chat\<close>, whose messages are the summary prompt and
  the user's message and nothing else. Whatever that call does, the overview is a
  label: \<^verbatim>\<open>New Chat\<close> if the call raises or completes with empty text (or not at all),
  the completed text otherwise. What \<^verbatim>\<open>sendMessage\<close> itself returns is the outcome of
  the primary exchange and does not depend on the second call.
\<close>

theorem overview_best_effort:
  "(isl (result (client_chat (summary_messages prompt msg)))
      \<or> completed_text (client_chat (summary_messages prompt msg)) = []
     \<longrightarrow> generateSessionOverview prompt (Some client_chat) msg = ''New Chat'')
   \<and> (\<not> isl (result (client_chat (summary_messages prompt msg)))
      \<and> completed_text (client_chat (summary_messages prompt msg)) \<noteq> []
     \<longrightarrow> generateSessionOverview prompt (Some client_chat) msg =
          completed_text (client_chat (summary_messages prompt msg)))
   \<and> generateSessionOverview prompt (Some client_chat) msg =
       generateSessionOverview prompt (Some (\<lambda>ms. client_chat (summary_messages prompt msg))) msg
   \<and> map role (summary_messages prompt msg) = [System, User]
   \<and> map content (summary_messages prompt msg) = [Text prompt, Text msg]
   \<and> returned (sendMessage prompt init (Some client_chat) primary msg) =
       (if fst init then primary else Inr ())
   \<and> overview_update (sendMessage prompt init (Some client_chat) primary msg) =
       (if fst init \<and> primary = Inr ()
        then Some (generateSessionOverview prompt (Some client_chat) msg) else None)"
  by (auto simp: overview_cases summary_messages_def sendMessage_def split: sum.splits)

theorem overview_best_effort_witness:
  "generateSessionOverview ''Summarise.'' (Some (chat sample_runtime (sample_client ''openai''))) ''hi''
     = ''New Chat''
   \<and> generateSessionOverview ''Summarise.'' (Some (chat sample_runtime (sample_client ''cohere''))) ''hi''
     = ''ok''
   \<and> returned (sendMessage ''Summarise.'' (True, None)
        (Some (chat sample_runtime (sample_client ''openai''))) (Inr ()) ''hi'') = Inr ()"
  using overview_best_effort [of "chat sample_runtime (sample_client ''openai'')" "''Summarise.''"
      "''hi''" "(True, None)" "Inr ()"]
    overview_best_effort [of "chat sample_runtime (sample_client ''cohere'')" "''Summarise.''"
      "''hi''" "(True, None)" "Inr ()"]
  by (simp add: completed_text_def sample_defs chat_defs summary_messages_def
        filterDiagnosticMessages_def keep_message_def startsWith_def openai_text_def
        cohere_text_def)

end
